theory Spec2Isabelle
  imports Main "HOL-Library.Char_ord" "HOL-Library.List_Lexorder"
begin

section \<open>nscrestc: a Nagios plugin that queries the NSClient++ REST API\<close>

text \<open>
  The program is the single function \<open>main\<close> of \<open>nscrestc.go\<close>. Go strings are byte
  sequences: they are modelled as \<open>string\<close> (a list of 8-bit \<open>char\<close>s). A \<open>float64\<close> is a
  type parameter \<open>'f\<close>; the one operation the program applies to it,
  \<open>strconv.FormatFloat(x, 'f', -1, 64)\<close>, is passed to the model as the function
  \<open>FormatFloat\<close>. A nil pointer (\<open>*float64\<close>, \<open>*string\<close>) is \<open>None\<close>.
\<close>

subsection \<open>The response structure (type Query, lines 43-65)\<close>

record 'f IntValue =
  Value :: "'f option"
  Unit :: "string option"
  Warning :: "'f option"
  Critical :: "'f option"
  Minimum :: "'f option"
  Maximum :: "'f option"

record 'f Perf =
  Alias :: string
  IntValue :: "'f IntValue"

record 'f Line =
  Message :: string
  Perf :: "'f Perf list"

record 'f PayloadEntry =
  Command :: string
  Lines :: "'f Line list"
  Result :: string

record Header =
  SourceID :: string

record 'f Query =
  Header :: Header
  Payload :: "'f PayloadEntry list"

text \<open>The zero values Go gives to freshly allocated structures (\<open>new(Query)\<close>).\<close>

definition zeroIntValue :: "'f IntValue" where
  "zeroIntValue = \<lparr>Value = None, Unit = None, Warning = None, Critical = None,
     Minimum = None, Maximum = None\<rparr>"

definition zeroPerf :: "'f Perf" where
  "zeroPerf = \<lparr>Alias = [], IntValue = zeroIntValue\<rparr>"

definition zeroLine :: "'f Line" where
  "zeroLine = \<lparr>Message = [], Perf = []\<rparr>"

definition zeroPayloadEntry :: "'f PayloadEntry" where
  "zeroPayloadEntry = \<lparr>Command = [], Lines = [], Result = []\<rparr>"

definition zeroQuery :: "'f Query" where
  "zeroQuery = \<lparr>Header = \<lparr>SourceID = []\<rparr>, Payload = []\<rparr>"

subsection \<open>Standard-library string functions the program calls\<close>

text \<open>
  \<open>strings.TrimSpace\<close> removes leading and trailing white space as Unicode defines it. On
  the UTF-8 bytes of a Go string these are the six ASCII characters tab, line feed,
  vertical tab, form feed, carriage return and space, and the encodings of U+0085,
  U+00A0, U+1680, U+2000..U+200A, U+2028, U+2029, U+202F, U+205F and U+3000.
\<close>

definition asciiSpace :: "char \<Rightarrow> bool" where
  "asciiSpace c = (c \<in> {CHR 0x09, CHR 0x0A, CHR 0x0B, CHR 0x0C, CHR 0x0D, CHR 0x20})"

definition unicodeSpaces :: "string list" where
  "unicodeSpaces =
     [[CHR 0xC2, CHR 0x85], [CHR 0xC2, CHR 0xA0], [CHR 0xE1, CHR 0x9A, CHR 0x80],
      [CHR 0xE2, CHR 0x80, CHR 0x80], [CHR 0xE2, CHR 0x80, CHR 0x81],
      [CHR 0xE2, CHR 0x80, CHR 0x82], [CHR 0xE2, CHR 0x80, CHR 0x83],
      [CHR 0xE2, CHR 0x80, CHR 0x84], [CHR 0xE2, CHR 0x80, CHR 0x85],
      [CHR 0xE2, CHR 0x80, CHR 0x86], [CHR 0xE2, CHR 0x80, CHR 0x87],
      [CHR 0xE2, CHR 0x80, CHR 0x88], [CHR 0xE2, CHR 0x80, CHR 0x89],
      [CHR 0xE2, CHR 0x80, CHR 0x8A], [CHR 0xE2, CHR 0x80, CHR 0xA8],
      [CHR 0xE2, CHR 0x80, CHR 0xA9], [CHR 0xE2, CHR 0x80, CHR 0xAF],
      [CHR 0xE2, CHR 0x81, CHR 0x9F], [CHR 0xE3, CHR 0x80, CHR 0x80]]"

text \<open>The number of bytes of the white-space character a string starts with (0: none).\<close>

definition leadingSpace :: "string \<Rightarrow> nat" where
  "leadingSpace s =
     (case s of
        [] \<Rightarrow> 0
      | c # _ \<Rightarrow>
          if asciiSpace c then 1
          else (case filter (\<lambda>w. take (length w) s = w) unicodeSpaces of
                  [] \<Rightarrow> 0
                | w # _ \<Rightarrow> length w))"

definition trailingSpace :: "string \<Rightarrow> nat" where
  "trailingSpace s =
     (case rev s of
        [] \<Rightarrow> 0
      | c # _ \<Rightarrow>
          if asciiSpace c then 1
          else (case filter (\<lambda>w. take (length w) (rev s) = rev w) unicodeSpaces of
                  [] \<Rightarrow> 0
                | w # _ \<Rightarrow> length w))"

function TrimLeft :: "string \<Rightarrow> string" where
  "TrimLeft s =
     (if 0 < leadingSpace s \<and> leadingSpace s \<le> length s
      then TrimLeft (drop (leadingSpace s) s) else s)"
  by pat_completeness auto
termination
  by (relation "measure length") auto

function TrimRight :: "string \<Rightarrow> string" where
  "TrimRight s =
     (if 0 < trailingSpace s \<and> trailingSpace s \<le> length s
      then TrimRight (take (length s - trailingSpace s) s) else s)"
  by pat_completeness auto
termination
  by (relation "measure length") auto

declare TrimLeft.simps [simp del] TrimRight.simps [simp del]

definition TrimSpace :: "string \<Rightarrow> string" where
  "TrimSpace s = TrimRight (TrimLeft s)"

text \<open>
  \<open>strings.SplitN(a, "=", 2)\<close>: the text before the first \<open>=\<close> and the text after it,
  or the whole string alone when it holds no \<open>=\<close>.
\<close>

definition SplitN :: "string \<Rightarrow> string list" where
  "SplitN a =
     (if CHR ''='' \<in> set a
      then [takeWhile (\<lambda>c. c \<noteq> CHR ''='') a, tl (dropWhile (\<lambda>c. c \<noteq> CHR ''='') a)]
      else [a])"

subsection \<open>Query parameters (net/url: Values, Add, QueryEscape, Encode)\<close>

text \<open>
  \<open>url.Values\<close> is a Go map from a key to the list of its values. It is kept as an
  association list with one entry per key; the order of the entries is not observable,
  because \<open>Encode\<close> visits the keys in sorted order.
\<close>

type_synonym Values = "(string \<times> string list) list"

fun Add :: "Values \<Rightarrow> string \<Rightarrow> string \<Rightarrow> Values" where
  "Add [] k x = [(k, [x])]"
| "Add ((k', xs) # v) k x = (if k' = k then (k', xs @ [x]) # v else (k', xs) # Add v k x)"

definition alnum :: "char \<Rightarrow> bool" where
  "alnum c = ((CHR ''a'' \<le> c \<and> c \<le> CHR ''z'') \<or> (CHR ''A'' \<le> c \<and> c \<le> CHR ''Z'')
     \<or> (CHR ''0'' \<le> c \<and> c \<le> CHR ''9''))"

text \<open>\<open>shouldEscape\<close> in the mode of a query component: all but the unreserved characters.\<close>

definition shouldEscape :: "char \<Rightarrow> bool" where
  "shouldEscape c = (\<not> (alnum c \<or> c \<in> {CHR ''-'', CHR ''_'', CHR ''.'', CHR ''~''}))"

definition upperhex :: string where
  "upperhex = ''0123456789ABCDEF''"

definition escapeByte :: "char \<Rightarrow> string" where
  "escapeByte c =
     (if c = CHR '' '' then ''+''
      else if shouldEscape c
      then [CHR ''%'', upperhex ! (of_char c div 16), upperhex ! (of_char c mod 16)]
      else [c])"

definition QueryEscape :: "string \<Rightarrow> string" where
  "QueryEscape s = concat (map escapeByte s)"

text \<open>
  \<open>Encode\<close> writes, for every key in sorted order and every value of the key in the order
  it was added, the escaped key, \<open>=\<close> and the escaped value, with \<open>&\<close> before each pair
  but the first (the buffer is then still empty).
\<close>

definition writePair :: "string \<Rightarrow> string \<Rightarrow> string \<Rightarrow> string" where
  "writePair k buf x =
     (if buf \<noteq> [] then buf @ ''&'' else buf) @ QueryEscape k @ ''='' @ QueryEscape x"

definition valuesOf :: "Values \<Rightarrow> string \<Rightarrow> string list" where
  "valuesOf v k = (case map_of v k of None \<Rightarrow> [] | Some xs \<Rightarrow> xs)"

definition Encode :: "Values \<Rightarrow> string" where
  "Encode v = foldl (\<lambda>buf k. foldl (writePair k) buf (valuesOf v k)) [] (sort (map fst v))"

subsection \<open>Building the request URL (lines 107-131)\<close>

record URL =
  Scheme :: string
  Host :: string
  Path :: string
  RawQuery :: string

text \<open>
  One round of the loop over the arguments after the first (lines 118-124). \<open>SplitN\<close>
  never returns an empty list; the model leaves the parameters alone there. The test of
  \<open>err\<close> in lines 125-128 reads the \<open>err\<close> of \<open>url.Parse\<close>, which is nil at this point.
\<close>

definition addParameter :: "Values \<Rightarrow> string \<Rightarrow> Values" where
  "addParameter parameters a =
     (case SplitN a of
        [] \<Rightarrow> parameters
      | [k] \<Rightarrow> Add parameters k []
      | k # x # _ \<Rightarrow> Add parameters k x)"

definition buildURL :: "URL \<Rightarrow> string list \<Rightarrow> URL" where
  "buildURL urlStruct flagArgs =
     (case flagArgs of
        [] \<Rightarrow> urlStruct\<lparr>Path := Path urlStruct @ ''/''\<rparr>
      | [a] \<Rightarrow> urlStruct\<lparr>Path := Path urlStruct @ ''/query/'' @ a\<rparr>
      | a # rest \<Rightarrow>
          urlStruct\<lparr>Path := Path urlStruct @ ''/query/'' @ a,
                     RawQuery := Encode (foldl addParameter [] rest)\<rparr>)"

subsection \<open>The exit codes (lines 80-85, 227)\<close>

definition ReturncodeMap :: "string \<rightharpoonup> int" where
  "ReturncodeMap = [''OK'' \<mapsto> 0, ''WARNING'' \<mapsto> 1, ''CRITICAL'' \<mapsto> 2, ''UNKNOWN'' \<mapsto> 3]"

text \<open>Reading a Go map at a key it does not hold gives the zero value of the value type.\<close>

definition lookupReturncode :: "string \<Rightarrow> int" where
  "lookupReturncode result = (case ReturncodeMap result of None \<Rightarrow> 0 | Some c \<Rightarrow> c)"

subsection \<open>Performance data (lines 197-219)\<close>

text \<open>
  One round of the inner loop: what it appends to the buffer \<open>nagiosPerfdata\<close>. A metric
  with no value is skipped by \<open>continue\<close> before anything is written.
\<close>

definition optField :: "('f \<Rightarrow> string) \<Rightarrow> 'f option \<Rightarrow> string" where
  "optField FormatFloat x = (case x of None \<Rightarrow> [] | Some y \<Rightarrow> '';'' @ FormatFloat y)"

definition writePerf :: "('f \<Rightarrow> string) \<Rightarrow> string \<Rightarrow> 'f Perf \<Rightarrow> string" where
  "writePerf FormatFloat buf p =
     (case Value (IntValue p) of
        None \<Rightarrow> buf
      | Some x \<Rightarrow>
          buf @ '' '' @ [CHR 0x27] @ Alias p @ [CHR 0x27] @ ''='' @ FormatFloat x
            @ (case Unit (IntValue p) of None \<Rightarrow> [] | Some u \<Rightarrow> u)
            @ optField FormatFloat (Warning (IntValue p))
            @ optField FormatFloat (Critical (IntValue p))
            @ optField FormatFloat (Minimum (IntValue p))
            @ optField FormatFloat (Maximum (IntValue p)))"

text \<open>
  One round of the outer loop (lines 193-220) on the pair of \<open>nagiosMessage\<close> and
  \<open>nagiosPerfdata\<close>: the message is overwritten, the buffer grows.
\<close>

definition lineStep :: "('f \<Rightarrow> string) \<Rightarrow> string \<times> string \<Rightarrow> 'f Line \<Rightarrow> string \<times> string" where
  "lineStep FormatFloat st l =
     (TrimSpace (Message l), foldl (writePerf FormatFloat) (snd st) (Perf l))"

text \<open>Lines 187-227 for the first payload entry: the line printed and the exit code.\<close>

definition report :: "('f \<Rightarrow> string) \<Rightarrow> 'f PayloadEntry \<Rightarrow> string \<times> int" where
  "report FormatFloat entry =
     (let (nagiosMessage, nagiosPerfdata) = foldl (lineStep FormatFloat) ([], []) (Lines entry)
      in (if length nagiosPerfdata = 0 then nagiosMessage
          else nagiosMessage @ ''|'' @ TrimSpace nagiosPerfdata,
          lookupReturncode (Result entry)))"

subsection \<open>Decoding the response (encoding/json, line 178)\<close>

text \<open>
  \<open>json.NewDecoder(res.Body).Decode(queryResult)\<close> reads the first JSON value of the body
  and stores it into the structure; the program drops the error it returns. The body is
  modelled by what the decoder's scanner finds: no complete JSON value (a syntax error, an
  empty body or a failed read; the error is then \<open>NoJSONValue\<close>), or a first value (any
  bytes after it are not read). A number is given by the \<open>float64\<close> it denotes.
\<close>

datatype 'f json =
  JNull
| JBool bool
| JNumber 'f
| JString string
| JArray "'f json list"
| JObject "(string \<times> 'f json) list"

datatype 'f body = NoValue | FirstValue "'f json"

datatype decodeError = NoJSONValue | UnmarshalTypeError

text \<open>
  A member of a JSON object is stored into the field whose \<open>json\<close> tag equals its name,
  or equals it under case folding. For the ASCII tags of \<open>Query\<close> folding is upper-casing
  of ASCII letters, and the two characters U+017F and U+212A fold to \<open>S\<close> and \<open>K\<close>.
\<close>

definition toUpper :: "char \<Rightarrow> char" where
  "toUpper c = (if CHR ''a'' \<le> c \<and> c \<le> CHR ''z'' then char_of (of_char c - (32::nat)) else c)"

fun foldName :: "string \<Rightarrow> string" where
  "foldName (a # b # c # s) =
     (if a = CHR 0xE2 \<and> b = CHR 0x84 \<and> c = CHR 0xAA then CHR ''K'' # foldName s
      else if a = CHR 0xC5 \<and> b = CHR 0xBF then CHR ''S'' # foldName (c # s)
      else toUpper a # foldName (b # c # s))"
| "foldName [a, b] =
     (if a = CHR 0xC5 \<and> b = CHR 0xBF then [CHR ''S''] else [toUpper a, toUpper b])"
| "foldName [a] = [toUpper a]"
| "foldName [] = []"

definition fieldIs :: "string \<Rightarrow> string \<Rightarrow> bool" where
  "fieldIs tag name = (foldName name = foldName tag)"

text \<open>
  Every decoder takes the JSON value and the current content of its target and returns
  the new content, with a flag that is true when a value did not fit its target (the
  decoder then records an \<open>UnmarshalTypeError\<close>, skips the value and goes on). \<open>null\<close>
  sets a pointer or a slice to nil and leaves a string or a structure alone. For a value
  other than \<open>null\<close> a nil pointer is allocated before the value is looked at.
\<close>

definition decodeString :: "'f json \<Rightarrow> string \<Rightarrow> bool \<times> string" where
  "decodeString j cur =
     (case j of JString s \<Rightarrow> (False, s) | JNull \<Rightarrow> (False, cur) | _ \<Rightarrow> (True, cur))"

definition decodeStringPtr :: "'f json \<Rightarrow> string option \<Rightarrow> bool \<times> string option" where
  "decodeStringPtr j cur =
     (case j of
        JString s \<Rightarrow> (False, Some s)
      | JNull \<Rightarrow> (False, None)
      | _ \<Rightarrow> (True, Some (case cur of None \<Rightarrow> [] | Some s \<Rightarrow> s)))"

definition decodeFloatPtr :: "('f::zero) json \<Rightarrow> 'f option \<Rightarrow> bool \<times> 'f option" where
  "decodeFloatPtr j cur =
     (case j of
        JNumber x \<Rightarrow> (False, Some x)
      | JNull \<Rightarrow> (False, None)
      | _ \<Rightarrow> (True, Some (case cur of None \<Rightarrow> 0 | Some x \<Rightarrow> x)))"

definition decodeStruct ::
  "(string \<Rightarrow> 'f json \<Rightarrow> 's \<Rightarrow> bool \<times> 's) \<Rightarrow> 'f json \<Rightarrow> 's \<Rightarrow> bool \<times> 's" where
  "decodeStruct field j cur =
     (case j of
        JObject members \<Rightarrow>
          foldl (\<lambda>(e, s) (k, x). (case field k x s of (e', s') \<Rightarrow> (e \<or> e', s')))
            (False, cur) members
      | JNull \<Rightarrow> (False, cur)
      | _ \<Rightarrow> (True, cur))"

text \<open>
  An array is stored element by element, into the element the slice already holds at
  that index or into a zero value beyond its length. (A slice is decoded into twice only
  when two members of one object name the same field; what Go then finds between the
  length and the capacity of a slice that had been shortened is not modelled.)
\<close>

definition decodeSlice ::
  "('f json \<Rightarrow> 'a \<Rightarrow> bool \<times> 'a) \<Rightarrow> 'a \<Rightarrow> 'f json \<Rightarrow> 'a list \<Rightarrow> bool \<times> 'a list" where
  "decodeSlice elem zero j cur =
     (case j of
        JArray js \<Rightarrow>
          (let rs = map (\<lambda>(i, x). elem x (if i < length cur then cur ! i else zero))
                      (enumerate 0 js)
           in (list_ex fst rs, map snd rs))
      | JNull \<Rightarrow> (False, [])
      | _ \<Rightarrow> (True, cur))"

definition intValueField :: "string \<Rightarrow> ('f::zero) json \<Rightarrow> 'f IntValue \<Rightarrow> bool \<times> 'f IntValue" where
  "intValueField name x v =
     (if fieldIs ''value'' name then apsnd (\<lambda>y. v\<lparr>Value := y\<rparr>) (decodeFloatPtr x (Value v))
      else if fieldIs ''unit'' name then apsnd (\<lambda>y. v\<lparr>Unit := y\<rparr>) (decodeStringPtr x (Unit v))
      else if fieldIs ''warning'' name
      then apsnd (\<lambda>y. v\<lparr>Warning := y\<rparr>) (decodeFloatPtr x (Warning v))
      else if fieldIs ''critical'' name
      then apsnd (\<lambda>y. v\<lparr>Critical := y\<rparr>) (decodeFloatPtr x (Critical v))
      else if fieldIs ''mininum'' name
      then apsnd (\<lambda>y. v\<lparr>Minimum := y\<rparr>) (decodeFloatPtr x (Minimum v))
      else if fieldIs ''maximum'' name
      then apsnd (\<lambda>y. v\<lparr>Maximum := y\<rparr>) (decodeFloatPtr x (Maximum v))
      else (False, v))"

definition perfField :: "string \<Rightarrow> ('f::zero) json \<Rightarrow> 'f Perf \<Rightarrow> bool \<times> 'f Perf" where
  "perfField name x p =
     (if fieldIs ''alias'' name then apsnd (\<lambda>y. p\<lparr>Alias := y\<rparr>) (decodeString x (Alias p))
      else if fieldIs ''int_value'' name
      then apsnd (\<lambda>y. p\<lparr>IntValue := y\<rparr>) (decodeStruct intValueField x (IntValue p))
      else (False, p))"

definition lineField :: "string \<Rightarrow> ('f::zero) json \<Rightarrow> 'f Line \<Rightarrow> bool \<times> 'f Line" where
  "lineField name x l =
     (if fieldIs ''message'' name then apsnd (\<lambda>y. l\<lparr>Message := y\<rparr>) (decodeString x (Message l))
      else if fieldIs ''perf'' name
      then apsnd (\<lambda>y. l\<lparr>Perf := y\<rparr>) (decodeSlice (decodeStruct perfField) zeroPerf x (Perf l))
      else (False, l))"

definition payloadField ::
  "string \<Rightarrow> ('f::zero) json \<Rightarrow> 'f PayloadEntry \<Rightarrow> bool \<times> 'f PayloadEntry" where
  "payloadField name x e =
     (if fieldIs ''command'' name
      then apsnd (\<lambda>y. e\<lparr>Command := y\<rparr>) (decodeString x (Command e))
      else if fieldIs ''lines'' name
      then apsnd (\<lambda>y. e\<lparr>Lines := y\<rparr>) (decodeSlice (decodeStruct lineField) zeroLine x (Lines e))
      else if fieldIs ''result'' name
      then apsnd (\<lambda>y. e\<lparr>Result := y\<rparr>) (decodeString x (Result e))
      else (False, e))"

definition headerField :: "string \<Rightarrow> 'f json \<Rightarrow> Header \<Rightarrow> bool \<times> Header" where
  "headerField name x h =
     (if fieldIs ''source_id'' name
      then apsnd (\<lambda>y. h\<lparr>SourceID := y\<rparr>) (decodeString x (SourceID h))
      else (False, h))"

definition queryField :: "string \<Rightarrow> ('f::zero) json \<Rightarrow> 'f Query \<Rightarrow> bool \<times> 'f Query" where
  "queryField name x q =
     (if fieldIs ''header'' name
      then apsnd (\<lambda>y. q\<lparr>Header := y\<rparr>) (decodeStruct headerField x (Header q))
      else if fieldIs ''payload'' name
      then apsnd (\<lambda>y. q\<lparr>Payload := y\<rparr>)
             (decodeSlice (decodeStruct payloadField) zeroPayloadEntry x (Payload q))
      else (False, q))"

definition Decode :: "('f::zero) body \<Rightarrow> 'f Query \<Rightarrow> decodeError option \<times> 'f Query" where
  "Decode b queryResult =
     (case b of
        NoValue \<Rightarrow> (Some NoJSONValue, queryResult)
      | FirstValue j \<Rightarrow>
          (case decodeStruct queryField j queryResult of
             (e, q) \<Rightarrow> (if e then Some UnmarshalTypeError else None, q)))"

subsection \<open>The run of main (lines 67-230)\<close>

text \<open>
  What the program prints is kept as a list of print calls, each with its format and
  arguments (\<open>fmt.Println\<close> with its text), so that no rendering of \<open>%q\<close> or \<open>%+v\<close> is
  needed. A deferred call is recorded when \<open>defer\<close> runs; \<open>os.Exit\<close> ends the process at
  once and runs no deferred call, returning from \<open>main\<close> would run them. The flag
  \<open>closed\<close> says whether the program's call \<open>res.Body.Close()\<close> has run.
\<close>

datatype 'f arg = Bytes string | Str string | Struct "'f Query"

datatype 'f event = Println string | Printf string "'f arg list" | PrintDefaults

datatype deferredCall = BodyClose

record 'f state =
  out :: "'f event list"
  err :: "'f event list"
  sent :: "(URL \<times> string) list"
  deferred :: "deferredCall list"
  closed :: bool

record 'f outcome =
  stdout :: "'f event list"
  stderr :: "'f event list"
  requests :: "(URL \<times> string) list"
  pending :: "deferredCall list"
  bodyClosed :: bool
  exitCode :: int

definition start :: "'f state" where
  "start = \<lparr>out = [], err = [], sent = [], deferred = [], closed = False\<rparr>"

definition println :: "'f state \<Rightarrow> string \<Rightarrow> 'f state" where
  "println st s = st\<lparr>out := out st @ [Println s]\<rparr>"

definition printf :: "'f state \<Rightarrow> string \<Rightarrow> 'f arg list \<Rightarrow> 'f state" where
  "printf st f as = st\<lparr>out := out st @ [Printf f as]\<rparr>"

definition os_Exit :: "'f state \<Rightarrow> int \<Rightarrow> 'f outcome" where
  "os_Exit st code =
     \<lparr>stdout = out st, stderr = err st, requests = sent st, pending = deferred st,
      bodyClosed = closed st, exitCode = code\<rparr>"

text \<open>The effect of the deferred calls, had they run (last deferred first).\<close>

fun runDeferred :: "deferredCall list \<Rightarrow> bool \<Rightarrow> bool" where
  "runDeferred [] c = c"
| "runDeferred (BodyClose # ds) c = runDeferred ds True"

text \<open>
  The answers of the environment in one run: the flags as \<open>flag.Parse\<close> left them, the
  names \<open>flag.Visit\<close> reports as set, the positional arguments, and the result of every
  library call that reaches outside the program (\<open>Inl\<close> holds the text of an error).
  \<open>httputil.DumpResponse\<close> reads the body and, when it succeeds, leaves a body that
  yields the same bytes; when it fails the response is left in a state the library does
  not define, given here by the run.
\<close>

record 'f Response =
  Body :: "'f body"

datatype 'f dumped = DumpOk string | DumpFailed string "'f body"

record 'f world =
  progName :: string
  seen :: "string \<Rightarrow> bool"
  flagURL :: string
  flagPassword :: string
  flagTimeout :: int
  flagVerbose :: bool
  flagInsecure :: bool
  flagArgs :: "string list"
  url_Parse :: "string + URL"
  http_NewRequest :: "string option"
  DumpRequestOut :: "string + string"
  hClient_Do :: "string + 'f Response"
  DumpResponse :: "'f dumped"

text \<open>Lines 93-98: a required flag is missing.\<close>

definition missingArgument :: "'f state \<Rightarrow> string \<Rightarrow> string \<Rightarrow> 'f outcome" where
  "missingArgument st prog req =
     os_Exit (st\<lparr>err := err st @
        [Printf ''UNKNOWN: Missing required -%s argument\<newline>'' [Str req],
         Printf ''Usage of %s:\<newline>'' [Str prog], PrintDefaults]\<rparr>) 3"

text \<open>Lines 151-157.\<close>

definition dumpRequest :: "'f state \<Rightarrow> string + string \<Rightarrow> 'f state" where
  "dumpRequest st d =
     (case d of
        Inr dumpreq \<Rightarrow> printf st ''REQUEST:\<newline>%q\<newline>'' [Bytes dumpreq]
      | Inl e \<Rightarrow>
          printf (printf st ''REQUEST-ERROR:\<newline>%s\<newline>'' [Str e])
            ''REQUEST:\<newline>%q\<newline>'' [Bytes []])"

text \<open>Lines 165-171: the state after the prints, and the response as the dump left it.\<close>

definition dumpResponse :: "'f state \<Rightarrow> 'f Response \<Rightarrow> 'f dumped \<Rightarrow> 'f state \<times> 'f Response" where
  "dumpResponse st res d =
     (case d of
        DumpOk dumpres \<Rightarrow> (printf st ''RESPONSE:\<newline>%q\<newline>'' [Bytes dumpres], res)
      | DumpFailed e b \<Rightarrow>
          (printf (printf st ''RESPONSE-ERROR:\<newline>%s\<newline>'' [Str e])
             ''RESPONSE:\<newline>%q\<newline>'' [Bytes []],
           res\<lparr>Body := b\<rparr>))"

text \<open>Lines 180-227: the decoded structure is reported.\<close>

definition respond :: "('f \<Rightarrow> string) \<Rightarrow> bool \<Rightarrow> 'f state \<Rightarrow> 'f Query \<Rightarrow> 'f outcome" where
  "respond FormatFloat verbose st queryResult =
     (case Payload queryResult of
        [] \<Rightarrow>
          os_Exit
            (println
               (if verbose then printf st ''QUERY RESULT:\<newline>%+v\<newline>'' [Struct queryResult]
                else st)
               ''UNKNOWN: The resultpayload size is 0'') 3
      | entry # _ \<Rightarrow>
          (case report FormatFloat entry of (line, code) \<Rightarrow> os_Exit (println st line) code))"

text \<open>Lines 177-178: a fresh structure is decoded into; the error of \<open>Decode\<close> is dropped.\<close>

definition interpretResponse ::
  "('f \<Rightarrow> string) \<Rightarrow> bool \<Rightarrow> 'f state \<Rightarrow> ('f::zero) Response \<Rightarrow> 'f outcome" where
  "interpretResponse FormatFloat verbose st res =
     respond FormatFloat verbose st (snd (Decode (Body res) zeroQuery))"

text \<open>Lines 158-228: from the HTTP call on.\<close>

definition afterRequest :: "('f \<Rightarrow> string) \<Rightarrow> ('f::zero) world \<Rightarrow> 'f state \<Rightarrow> 'f outcome" where
  "afterRequest FormatFloat w st =
     (case hClient_Do w of
        Inl e \<Rightarrow> os_Exit (println st (''UNKNOWN: '' @ e)) 3
      | Inr res \<Rightarrow>
          (let st1 = st\<lparr>deferred := BodyClose # deferred st\<rparr>;
               (st2, res2) = (if flagVerbose w then dumpResponse st1 res (DumpResponse w)
                              else (st1, res))
           in if length (flagArgs w) = 0
              then os_Exit (println st2 (''OK: NSClient API reachable on '' @ flagURL w)) 0
              else interpretResponse FormatFloat (flagVerbose w) st2 res2))"

definition main :: "('f \<Rightarrow> string) \<Rightarrow> ('f::zero) world \<Rightarrow> 'f outcome" where
  "main FormatFloat w =
     (if \<not> seen w ''u'' then missingArgument start (progName w) ''u''
      else if \<not> seen w ''p'' then missingArgument start (progName w) ''p''
      else
        (case url_Parse w of
           Inl e \<Rightarrow> os_Exit (println start (''UNKNOWN: '' @ e)) 3
         | Inr parsed \<Rightarrow>
             (let urlStruct = buildURL parsed (flagArgs w) in
              case http_NewRequest w of
                Some e \<Rightarrow> os_Exit (println start (''UNKNOWN: '' @ e)) 3
              | None \<Rightarrow>
                  (let st = (if flagVerbose w then dumpRequest start (DumpRequestOut w)
                             else start)
                   in afterRequest FormatFloat w
                        (st\<lparr>sent := sent st @ [(urlStruct, flagPassword w)]\<rparr>)))))"

subsection \<open>The numbers of type float64 and their text (strconv.FormatFloat)\<close>

text \<open>
  For the format of the numbers the type parameter is taken at \<open>float64\<close>. A finite
  \<open>float64\<close> is given by its sign and by the shortest decimal digits that identify it,
  which is what \<open>strconv\<close> computes for the precision -1: the digits, most significant
  first, without leading or trailing zero (none for zero), and the position of the
  decimal point counted from the first digit, so that 95.5 is \<open>Finite False [9, 5, 5] 2\<close>
  and 0.001 is \<open>Finite False [1] (-2)\<close>. The other values are the two infinities and
  NaN. The zero value of the type is +0.
\<close>

datatype float64 = Finite bool "nat list" int | PosInf | NegInf | NaN

instantiation float64 :: zero
begin

definition zero_float64 :: float64 where
  "zero_float64 = Finite False [] 0"

instance ..

end





text \<open>
  Decimal notation without exponent and without needless zeros, in the words of the
  specification: an optional minus sign, digits (a single 0, or digits that do not start
  with 0), and then either nothing or a point and digits that do not end with 0.
\<close>

definition isDigit :: "char \<Rightarrow> bool" where
  "isDigit c = (c \<in> set ''0123456789'')"



definition charDigit :: "char \<Rightarrow> nat" where
  "charDigit c = of_char c - 48"



subsection \<open>Notions used to state the properties\<close>

text \<open>The run gets as far as the HTTP call of line 158.\<close>

definition reachesCall :: "'f world \<Rightarrow> bool" where
  "reachesCall w =
     (seen w ''u'' \<and> seen w ''p'' \<and> \<not> isl (url_Parse w) \<and> http_NewRequest w = None)"

text \<open>The response as the program holds it at line 173, when the call succeeded.\<close>

definition responseRead :: "'f world \<Rightarrow> 'f Response option" where
  "responseRead w =
     (if reachesCall w
      then (case hClient_Do w of
              Inl e \<Rightarrow> None
            | Inr res \<Rightarrow>
                Some (if flagVerbose w then snd (dumpResponse start res (DumpResponse w))
                      else res))
      else None)"

text \<open>The structure \<open>queryResult\<close> after line 178.\<close>

definition queryDecoded :: "('f::zero) world \<Rightarrow> 'f Query option" where
  "queryDecoded w = map_option (\<lambda>res. snd (Decode (Body res) zeroQuery)) (responseRead w)"

text \<open>A formatter and a run for the examples: whole numbers in decimal digits.\<close>

function digits :: "nat \<Rightarrow> string" where
  "digits n =
     (if n < 10 then [''0123456789'' ! n]
      else digits (n div 10) @ [''0123456789'' ! (n mod 10)])"
  by pat_completeness auto
termination
  by (relation "measure id") auto

declare digits.simps [simp del]

definition formatWhole :: "int \<Rightarrow> string" where
  "formatWhole i = (if i < 0 then ''-'' else []) @ digits (nat \<bar>i\<bar>)"

definition exampleURL :: URL where
  "exampleURL = \<lparr>Scheme = ''https'', Host = ''10.1.2.3:8443'', Path = [], RawQuery = []\<rparr>"

definition exampleWorld :: "string list \<Rightarrow> bool \<Rightarrow> int body \<Rightarrow> int world" where
  "exampleWorld as verbose b =
     \<lparr>progName = ''nscrestc'', seen = (\<lambda>name. name = ''u'' \<or> name = ''p''),
      flagURL = ''https://10.1.2.3:8443'', flagPassword = ''secret'', flagTimeout = 10,
      flagVerbose = verbose, flagInsecure = False, flagArgs = as,
      url_Parse = Inr exampleURL, http_NewRequest = None,
      DumpRequestOut = Inr ''GET'', hClient_Do = Inr \<lparr>Body = b\<rparr>,
      DumpResponse = DumpOk ''HTTP/1.1 200 OK''\<rparr>"

definition resultBody :: "string \<Rightarrow> int body" where
  "resultBody r = FirstValue (JObject [(''payload'', JArray [JObject [(''result'', JString r)]])])"

definition emptyPayloadBody :: "int body" where
  "emptyPayloadBody = FirstValue (JObject [(''payload'', JArray [])])"

text \<open>
  A body whose first JSON value is complete and followed by a failing read (a connection
  cut short of the announced length): the decoder reads the value, the dump fails and
  leaves a body with nothing more to read.
\<close>

definition truncatedWorld :: "bool \<Rightarrow> int world" where
  "truncatedWorld verbose =
     (exampleWorld [''check_cpu''] verbose (resultBody ''OK''))
       \<lparr>DumpResponse := DumpFailed ''unexpected EOF'' NoValue\<rparr>"

text \<open>A payload of one entry, and a header that is a number where an object belongs.\<close>

definition partialBody :: "int body" where
  "partialBody =
     FirstValue (JObject
       [(''payload'', JArray [JObject [(''result'', JString ''CRITICAL'')]]),
        (''header'', JNumber 5)])"

text \<open>
  The body holds a JSON object with a member for the field \<open>Payload\<close> that is a non-empty
  array.
\<close>

definition nonEmptyArray :: "'f json \<Rightarrow> bool" where
  "nonEmptyArray x = (case x of JArray (y # ys) \<Rightarrow> True | _ \<Rightarrow> False)"

definition carriesPayload :: "'f body \<Rightarrow> bool" where
  "carriesPayload b =
     (case b of
        NoValue \<Rightarrow> False
      | FirstValue j \<Rightarrow>
          (case j of
             JObject members \<Rightarrow>
               list_ex (\<lambda>m. fieldIs ''payload'' (fst m) \<and> nonEmptyArray (snd m)) members
           | _ \<Rightarrow> False))"

text \<open>A payload that is a string where an array belongs.\<close>

definition wrongShapeBody :: "int body" where
  "wrongShapeBody = FirstValue (JObject [(''payload'', JString ''none'')])"

text \<open>A metric whose lower bound is sent under the given member name.\<close>

definition minimumMetric :: "string \<Rightarrow> int json" where
  "minimumMetric name =
     JObject [(''alias'', JString ''used''),
       (''int_value'',
        JObject [(''value'', JNumber 95), (name, JNumber 0), (''maximum'', JNumber 100)])]"



text \<open>
  The tag of a metric in the words of the specification: the quoted alias, \<open>=\<close>, the
  value, the unit if present, then warning, critical, minimum and maximum, each after a
  \<open>;\<close> and only if present. A metric without a value has no tag.
\<close>

definition present :: "'a option list \<Rightarrow> 'a list" where
  "present xs = List.map_filter id xs"

definition specTag :: "('f \<Rightarrow> string) \<Rightarrow> 'f Perf \<Rightarrow> string option" where
  "specTag FormatFloat p =
     (case Value (IntValue p) of
        None \<Rightarrow> None
      | Some x \<Rightarrow>
          Some ([CHR 0x27] @ Alias p @ [CHR 0x27] @ ''='' @ FormatFloat x
            @ (case Unit (IntValue p) of None \<Rightarrow> [] | Some u \<Rightarrow> u)
            @ concat (map (\<lambda>y. '';'' @ FormatFloat y)
                (present [Warning (IntValue p), Critical (IntValue p),
                          Minimum (IntValue p), Maximum (IntValue p)]))))"

text \<open>The tags of all metrics of the given lines, line by line, in order.\<close>

definition specTags :: "('f \<Rightarrow> string) \<Rightarrow> 'f Line list \<Rightarrow> string list" where
  "specTags FormatFloat ls = List.map_filter (specTag FormatFloat) (concat (map Perf ls))"

text \<open>Each tag with a space before it, as the buffer holds them.\<close>

definition spaced :: "string list \<Rightarrow> string" where
  "spaced ts = concat (map (\<lambda>t. '' '' @ t) ts)"

text \<open>The line the specification asks for, for one payload entry.\<close>

definition specLine :: "('f \<Rightarrow> string) \<Rightarrow> 'f PayloadEntry \<Rightarrow> string" where
  "specLine FormatFloat entry =
     (if Lines entry = [] then [] else TrimSpace (Message (last (Lines entry))))
       @ (if specTags FormatFloat (Lines entry) = [] then []
          else ''|'' @ TrimSpace (spaced (specTags FormatFloat (Lines entry))))"

text \<open>
  A response of two payload entries; the first has two lines with a metric each.
\<close>

definition usedMetric :: "int json" where
  "usedMetric =
     JObject [(''alias'', JString ''used''),
       (''int_value'',
        JObject [(''value'', JNumber 95), (''unit'', JString ''%''),
                 (''warning'', JNumber 80), (''critical'', JNumber 90)])]"

definition loadMetric :: "int json" where
  "loadMetric = JObject [(''alias'', JString ''load''), (''int_value'', JObject [(''value'', JNumber 3)])]"

definition twoLineBody :: "int body" where
  "twoLineBody =
     FirstValue (JObject [(''payload'', JArray
       [JObject [(''result'', JString ''WARNING''),
                 (''lines'', JArray
                    [JObject [(''message'', JString ''all fine''), (''perf'', JArray [loadMetric])],
                     JObject [(''message'', JString '' disk low ''),
                              (''perf'', JArray [usedMetric])]])],
        JObject [(''result'', JString ''CRITICAL''),
                 (''lines'', JArray [JObject [(''message'', JString ''not looked at'')]])]])])"

text \<open>What \<open>twoLineBody\<close> decodes to.\<close>

definition driveEntry :: "int PayloadEntry" where
  "driveEntry =
     \<lparr>Command = [],
      Lines =
        [\<lparr>Message = ''all fine'',
          Perf = [\<lparr>Alias = ''load'',
                   IntValue = \<lparr>Value = Some 3, Unit = None, Warning = None, Critical = None,
                                Minimum = None, Maximum = None\<rparr>\<rparr>]\<rparr>,
         \<lparr>Message = '' disk low '',
          Perf = [\<lparr>Alias = ''used'',
                   IntValue = \<lparr>Value = Some 95, Unit = Some ''%'', Warning = Some 80,
                                Critical = Some 90, Minimum = None, Maximum = None\<rparr>\<rparr>]\<rparr>],
      Result = ''WARNING''\<rparr>"

definition otherEntry :: "int PayloadEntry" where
  "otherEntry =
     \<lparr>Command = [], Lines = [\<lparr>Message = ''not looked at'', Perf = []\<rparr>],
      Result = ''CRITICAL''\<rparr>"

definition twoLineQuery :: "int Query" where
  "twoLineQuery = \<lparr>Header = \<lparr>SourceID = []\<rparr>, Payload = [driveEntry, otherEntry]\<rparr>"
























section \<open>Properties\<close>

subsection \<open>Shared facts\<close>

lemma deferred_printf [simp]:
  "deferred (printf st f as) = deferred st"
  "closed (printf st f as) = closed st"
  by (simp_all add: printf_def)

lemma deferred_dumpResponse [simp]:
  "deferred (fst (dumpResponse st res d)) = deferred st"
  "closed (fst (dumpResponse st res d)) = closed st"
  by (cases d; simp add: dumpResponse_def)+

lemma deferred_dumpRequest [simp]:
  "deferred (dumpRequest st d) = deferred st"
  "closed (dumpRequest st d) = closed st"
  by (cases d; simp add: dumpRequest_def)+

lemma sent_printf [simp]:
  "sent (printf st f as) = sent st"
  "err (printf st f as) = err st"
  by (simp_all add: printf_def)

lemma sent_dumpResponse [simp]:
  "sent (fst (dumpResponse st res d)) = sent st"
  "err (fst (dumpResponse st res d)) = err st"
  by (cases d; simp add: dumpResponse_def)+

lemma sent_dumpRequest [simp]:
  "sent (dumpRequest st d) = sent st"
  "err (dumpRequest st d) = err st"
  by (cases d; simp add: dumpRequest_def)+

lemma snd_dumpResponse:
  "snd (dumpResponse st res d) = (case d of DumpOk x \<Rightarrow> res | DumpFailed e b \<Rightarrow> res\<lparr>Body := b\<rparr>)"
  by (cases d) (simp_all add: dumpResponse_def)

lemma main_after_response:
  fixes w :: "('f::zero) world"
  assumes "responseRead w = Some res"
  shows "\<exists>st. (flagVerbose w \<or> out st = []) \<and> deferred st = [BodyClose] \<and> \<not> closed st \<and>
    length (sent st) = 1 \<and> err st = [] \<and>
    main FormatFloat w =
      (if length (flagArgs w) = 0
       then os_Exit (println st (''OK: NSClient API reachable on '' @ flagURL w)) 0
       else respond FormatFloat (flagVerbose w) st (snd (Decode (Body res) zeroQuery)))"
proof -
  from assms have r: "reachesCall w" by (simp add: responseRead_def split: if_splits)
  then obtain parsed where p: "url_Parse w = Inr parsed"
    by (cases "url_Parse w") (auto simp: reachesCall_def)
  from assms r obtain res0 where d: "hClient_Do w = Inr res0"
    and res: "res = (if flagVerbose w then snd (dumpResponse start res0 (DumpResponse w)) else res0)"
    by (auto simp: responseRead_def split: sum.splits)
  have snd_dump: "snd (dumpResponse st res0 (DumpResponse w)) = snd (dumpResponse start res0 (DumpResponse w))" for st :: "'f state"
    by (cases "DumpResponse w") (simp_all add: dumpResponse_def)
  show ?thesis
  proof (cases "flagVerbose w")
    case False
    with r p d res show ?thesis
      by (intro exI[of _ "\<lparr>out = [], err = [], sent = [(buildURL parsed (flagArgs w), flagPassword w)],
            deferred = [BodyClose], closed = False\<rparr>"])
         (simp add: main_def afterRequest_def reachesCall_def interpretResponse_def start_def)
  next
    case True
    define st00 :: "'f state" where "st00 = dumpRequest start (DumpRequestOut w)"
    define st0 where "st0 = st00\<lparr>sent := sent st00 @ [(buildURL parsed (flagArgs w), flagPassword w)]\<rparr>"
    have "deferred st0 = []" "\<not> closed st0" by (simp_all add: st0_def st00_def start_def)
    have m: "main FormatFloat w = afterRequest FormatFloat w st0"
      using True r p by (simp add: main_def reachesCall_def st0_def st00_def Let_def)
    have a: "afterRequest FormatFloat w st0 =
      (if length (flagArgs w) = 0
       then os_Exit (println (fst (dumpResponse (st0\<lparr>deferred := [BodyClose]\<rparr>) res0 (DumpResponse w))) (''OK: NSClient API reachable on '' @ flagURL w)) 0
       else respond FormatFloat (flagVerbose w) (fst (dumpResponse (st0\<lparr>deferred := [BodyClose]\<rparr>) res0 (DumpResponse w))) (snd (Decode (Body res) zeroQuery)))"
      using True d res \<open>deferred st0 = []\<close>
      by (simp add: afterRequest_def interpretResponse_def Let_def case_prod_beta snd_dumpResponse)
    show ?thesis
      apply (rule exI[of _ "fst (dumpResponse (st0\<lparr>deferred := [BodyClose]\<rparr>) res0 (DumpResponse w))"])
      using True \<open>\<not> closed st0\<close> by (simp add: m a) (simp add: st0_def st00_def start_def)
  qed
qed


lemma exampleWorld_reaches: "reachesCall (exampleWorld as v b)"
  by (simp add: reachesCall_def exampleWorld_def)

lemma exampleWorld_response: "responseRead (exampleWorld as v b) = Some \<lparr>Body = b\<rparr>"
  by (simp add: responseRead_def exampleWorld_reaches)
     (simp add: exampleWorld_def snd_dumpResponse)

lemma fieldIs_payload [simp]: "fieldIs ''payload'' ''payload''" "\<not> fieldIs ''header'' ''payload''"
  by (simp_all add: fieldIs_def toUpper_def)

lemma decoded_resultBody:
  "queryDecoded (exampleWorld as v (resultBody r)) =
     Some \<lparr>Header = \<lparr>SourceID = []\<rparr>,
           Payload = [\<lparr>Command = [], Lines = [], Result = r\<rparr>]\<rparr>"
  by (simp add: queryDecoded_def exampleWorld_response)
     (simp add: resultBody_def Decode_def decodeStruct_def queryField_def fieldIs_def
        toUpper_def decodeSlice_def payloadField_def decodeString_def zeroQuery_def
        zeroPayloadEntry_def enumerate_eq_zip)

lemma decoded_emptyPayloadBody:
  "queryDecoded (exampleWorld as v emptyPayloadBody) = Some zeroQuery"
  by (simp add: queryDecoded_def exampleWorld_response)
     (simp add: emptyPayloadBody_def Decode_def decodeStruct_def queryField_def
        decodeSlice_def zeroQuery_def)

lemma main_decoded:
  fixes w :: "('f::zero) world"
  assumes "queryDecoded w = Some q" and "flagArgs w \<noteq> []"
  shows "\<exists>st. (flagVerbose w \<or> out st = []) \<and> deferred st = [BodyClose] \<and> \<not> closed st \<and>
    main FormatFloat w = respond FormatFloat (flagVerbose w) st q"
proof -
  from assms(1) obtain res where r: "responseRead w = Some res"
    and q: "q = snd (Decode (Body res) zeroQuery)"
    by (auto simp: queryDecoded_def)
  from main_after_response[OF r, of FormatFloat] assms(2) q show ?thesis
    by auto
qed

subsection \<open>The exit code\<close>

text \<open>
  C1. When at least one positional argument was given and the decoded payload is not
  empty, the exit code is read from the table OK 0, WARNING 1, CRITICAL 2, UNKNOWN 3 at
  the result string of the first payload entry, and it is 0 for every other string.
\<close>

theorem exit_code_from_table:
  fixes w :: "('f::zero) world"
  assumes "queryDecoded w = Some q" and "flagArgs w \<noteq> []" and "Payload q = entry # rest"
  shows "exitCode (main FormatFloat w) =
    (if Result entry = ''OK'' then 0
     else if Result entry = ''WARNING'' then 1
     else if Result entry = ''CRITICAL'' then 2
     else if Result entry = ''UNKNOWN'' then 3
     else 0)"
proof -
  from main_decoded[OF assms(1,2), of FormatFloat] obtain st where
    m: "main FormatFloat w = respond FormatFloat (flagVerbose w) st q"
    by auto
  show ?thesis
    using assms(3)
    by (simp add: m respond_def report_def os_Exit_def lookupReturncode_def ReturncodeMap_def
        case_prod_beta)
qed

theorem exit_code_from_table_witness:
  "queryDecoded (exampleWorld [''check_cpu''] False (resultBody ''WARNING'')) =
     Some \<lparr>Header = \<lparr>SourceID = []\<rparr>,
           Payload = [\<lparr>Command = [], Lines = [], Result = ''WARNING''\<rparr>]\<rparr>
   \<and> flagArgs (exampleWorld [''check_cpu''] False (resultBody ''WARNING'')) \<noteq> []
   \<and> exitCode (main formatWhole (exampleWorld [''check_cpu''] False (resultBody ''WARNING''))) = 1
   \<and> exitCode (main formatWhole (exampleWorld [''check_cpu''] False (resultBody ''warning''))) = 0"
proof -
  have a: "flagArgs (exampleWorld [''check_cpu''] False b) \<noteq> []" for b
    by (simp add: exampleWorld_def)
  have p: "Payload \<lparr>Header = \<lparr>SourceID = []\<rparr>,
        Payload = [\<lparr>Command = [], Lines = [], Result = r\<rparr>]\<rparr> =
      \<lparr>Command = [], Lines = [], Result = r\<rparr> # ([] :: int PayloadEntry list)" for r
    by simp
  have "exitCode (main formatWhole (exampleWorld [''check_cpu''] False (resultBody ''WARNING''))) = 1"
    using exit_code_from_table[OF decoded_resultBody a p, where FormatFloat = formatWhole]
    by simp
  moreover
  have "exitCode (main formatWhole (exampleWorld [''check_cpu''] False (resultBody ''warning''))) = 0"
    using exit_code_from_table[OF decoded_resultBody a p, where FormatFloat = formatWhole]
    by simp
  ultimately show ?thesis
    using a by (simp add: decoded_resultBody)
qed

subsection \<open>An empty payload\<close>

text \<open>
  C4. When at least one positional argument was given and the decoded payload is empty,
  the last line printed is \<open>UNKNOWN: The resultpayload size is 0\<close> (the only line, unless
  the run is verbose) and the exit code is 3.
\<close>

theorem empty_payload_is_unknown:
  fixes w :: "('f::zero) world"
  assumes "queryDecoded w = Some q" and "flagArgs w \<noteq> []" and "Payload q = []"
  shows "exitCode (main FormatFloat w) = 3
    \<and> last (stdout (main FormatFloat w)) = Println ''UNKNOWN: The resultpayload size is 0''
    \<and> (flagVerbose w
        \<or> stdout (main FormatFloat w) = [Println ''UNKNOWN: The resultpayload size is 0''])"
proof -
  from main_decoded[OF assms(1,2), of FormatFloat] obtain st where
    v: "flagVerbose w \<or> out st = []" and
    m: "main FormatFloat w = respond FormatFloat (flagVerbose w) st q"
    by auto
  show ?thesis
    using assms(3) v
    by (auto simp: m respond_def os_Exit_def println_def printf_def)
qed

theorem empty_payload_is_unknown_witness:
  "queryDecoded (exampleWorld [''check_cpu''] False emptyPayloadBody) = Some zeroQuery
   \<and> flagArgs (exampleWorld [''check_cpu''] False emptyPayloadBody) \<noteq> []
   \<and> Payload (zeroQuery :: int Query) = []
   \<and> exitCode (main formatWhole (exampleWorld [''check_cpu''] False emptyPayloadBody)) = 3
   \<and> stdout (main formatWhole (exampleWorld [''check_cpu''] False emptyPayloadBody)) =
       [Println ''UNKNOWN: The resultpayload size is 0'']"
proof -
  have a: "flagArgs (exampleWorld [''check_cpu''] False emptyPayloadBody) \<noteq> []"
    by (simp add: exampleWorld_def)
  have z: "Payload (zeroQuery :: int Query) = []"
    by (simp add: zeroQuery_def)
  have "\<not> flagVerbose (exampleWorld [''check_cpu''] False emptyPayloadBody)"
    by (simp add: exampleWorld_def)
  with empty_payload_is_unknown[OF decoded_emptyPayloadBody a z, where FormatFloat = formatWhole] a z
  show ?thesis
    by (simp add: decoded_emptyPayloadBody)
qed

subsection \<open>The reachability probe\<close>

text \<open>
  C7. With no positional argument, once the HTTP call has returned a response the last
  line printed is \<open>OK: NSClient API reachable on\<close> and the URL given with \<open>-u\<close> (the only
  line, unless the run is verbose), the exit code is 0 and one request was sent,
  whatever the body of the response holds.
\<close>

theorem probe_reports_reachable:
  fixes w :: "('f::zero) world"
  assumes "reachesCall w" and "hClient_Do w = Inr res" and "flagArgs w = []"
  shows "exitCode (main FormatFloat w) = 0
    \<and> last (stdout (main FormatFloat w)) =
        Println (''OK: NSClient API reachable on '' @ flagURL w)
    \<and> (flagVerbose w
        \<or> stdout (main FormatFloat w) =
            [Println (''OK: NSClient API reachable on '' @ flagURL w)])
    \<and> length (requests (main FormatFloat w)) = 1"
proof -
  from assms(1,2) obtain res' where r: "responseRead w = Some res'"
    by (simp add: responseRead_def)
  from main_after_response[OF r, of FormatFloat] assms(3) obtain st where
    v: "flagVerbose w \<or> out st = []" and s: "length (sent st) = 1" and
    m: "main FormatFloat w =
          os_Exit (println st (''OK: NSClient API reachable on '' @ flagURL w)) 0"
    by auto
  show ?thesis
    using v s by (auto simp: m os_Exit_def println_def)
qed

theorem probe_reports_reachable_witness:
  "reachesCall (exampleWorld [] False (resultBody ''CRITICAL''))
   \<and> hClient_Do (exampleWorld [] False (resultBody ''CRITICAL'')) =
       Inr \<lparr>Body = resultBody ''CRITICAL''\<rparr>
   \<and> flagArgs (exampleWorld [] False (resultBody ''CRITICAL'')) = []
   \<and> exitCode (main formatWhole (exampleWorld [] False (resultBody ''CRITICAL''))) = 0
   \<and> stdout (main formatWhole (exampleWorld [] False (resultBody ''CRITICAL''))) =
       [Println ''OK: NSClient API reachable on https://10.1.2.3:8443'']"
proof -
  have d: "hClient_Do (exampleWorld [] False (resultBody ''CRITICAL'')) =
      Inr \<lparr>Body = resultBody ''CRITICAL''\<rparr>"
    and a: "flagArgs (exampleWorld [] False (resultBody ''CRITICAL'')) = []"
    and v: "\<not> flagVerbose (exampleWorld [] False (resultBody ''CRITICAL''))"
    and u: "flagURL (exampleWorld [] False (resultBody ''CRITICAL'')) = ''https://10.1.2.3:8443''"
    by (simp_all add: exampleWorld_def)
  from probe_reports_reachable[OF exampleWorld_reaches d a, where FormatFloat = formatWhole] v d a
  show ?thesis
    by (simp add: exampleWorld_reaches u)
qed

subsection \<open>Decoding errors\<close>

lemma Decode_not_object:
  assumes "\<And>ms. b \<noteq> FirstValue (JObject ms)"
  shows "snd (Decode b q) = q"
proof (cases b)
  case NoValue
  then show ?thesis by (simp add: Decode_def)
next
  case (FirstValue j)
  with assms show ?thesis
    by (cases j) (auto simp: Decode_def decodeStruct_def)
qed

lemma partialBody_decoded:
  "Decode partialBody zeroQuery =
     (Some UnmarshalTypeError,
      \<lparr>Header = \<lparr>SourceID = []\<rparr>,
        Payload = [\<lparr>Command = [], Lines = [], Result = ''CRITICAL''\<rparr>]\<rparr>)"
  by (simp add: partialBody_def Decode_def decodeStruct_def queryField_def fieldIs_def
      toUpper_def decodeSlice_def payloadField_def decodeString_def zeroQuery_def
      headerField_def zeroPayloadEntry_def enumerate_eq_zip)

text \<open>
  C5, as stated, fails: a body of partly unexpected shape makes \<open>Decode\<close> return an error
  and still leaves a payload entry; the run then reports that entry (exit code 2 here)
  and not the unknown outcome.
\<close>

theorem partly_decoded_body_counterexample:
  "fst (Decode partialBody zeroQuery) = Some UnmarshalTypeError
   \<and> snd (Decode partialBody zeroQuery) \<noteq> zeroQuery
   \<and> exitCode (main formatWhole (exampleWorld [''check_cpu''] False partialBody)) = 2
   \<and> stdout (main formatWhole (exampleWorld [''check_cpu''] False partialBody)) = [Println []]"
proof -
  have "main formatWhole (exampleWorld [''check_cpu''] False partialBody) =
      respond formatWhole False
        (start\<lparr>sent := [(buildURL exampleURL [''check_cpu''], ''secret'')],
               deferred := [BodyClose]\<rparr>)
        (snd (Decode partialBody zeroQuery))"
    by (simp add: main_def exampleWorld_def afterRequest_def interpretResponse_def Let_def
        start_def)
  then show ?thesis
    unfolding partialBody_decoded
    by (simp add: zeroQuery_def respond_def report_def os_Exit_def
        println_def start_def lookupReturncode_def ReturncodeMap_def)
qed

lemma decodeSlice_empty:
  "\<not> nonEmptyArray x \<Longrightarrow> snd (decodeSlice elem z x []) = []"
  by (cases x) (auto simp: decodeSlice_def nonEmptyArray_def split: list.splits)

lemma header_not_payload: "fieldIs ''header'' name \<Longrightarrow> \<not> fieldIs ''payload'' name"
  by (auto simp: fieldIs_def toUpper_def)

lemma queryField_keeps_empty:
  assumes "Payload q = []" and "\<not> (fieldIs ''payload'' name \<and> nonEmptyArray x)"
  shows "Payload (snd (queryField name x q)) = []"
  using assms decodeSlice_empty[of x "decodeStruct payloadField" zeroPayloadEntry]
  by (auto simp: queryField_def)

lemma fold_keeps_empty:
  "Payload (snd acc) = [] \<Longrightarrow>
   \<not> list_ex (\<lambda>m. fieldIs ''payload'' (fst m) \<and> nonEmptyArray (snd m)) ms \<Longrightarrow>
   Payload (snd (foldl
      (\<lambda>(e, s) (k, x). (case queryField k x s of (e', s') \<Rightarrow> (e \<or> e', s'))) acc ms)) = []"
proof (induction ms arbitrary: acc)
  case Nil
  then show ?case by simp
next
  case (Cons m ms)
  obtain k x where m: "m = (k, x)" by (cases m)
  obtain e s where acc: "acc = (e, s)" by (cases acc)
  from Cons.prems m have k: "\<not> (fieldIs ''payload'' k \<and> nonEmptyArray x)" and
    rest: "\<not> list_ex (\<lambda>m. fieldIs ''payload'' (fst m) \<and> nonEmptyArray (snd m)) ms"
    by simp_all
  from Cons.prems(1) acc have s: "Payload s = []" by simp
  have "Payload (snd (case queryField k x s of (e', s') \<Rightarrow> (e \<or> e', s'))) = []"
    using queryField_keeps_empty[OF s k] by (simp add: case_prod_beta)
  from Cons.IH[OF this rest] show ?case
    by (simp add: m acc)
qed

lemma Decode_without_payload:
  assumes "\<not> carriesPayload b"
  shows "Payload (snd (Decode b zeroQuery)) = []"
proof (cases b)
  case NoValue
  then show ?thesis by (simp add: Decode_def zeroQuery_def)
next
  case (FirstValue j)
  show ?thesis
  proof (cases j)
    case (JObject ms)
    with assms FirstValue have
      "\<not> list_ex (\<lambda>m. fieldIs ''payload'' (fst m) \<and> nonEmptyArray (snd m)) ms"
      by (simp add: carriesPayload_def)
    from fold_keeps_empty[OF _ this, of "(False, zeroQuery)"] show ?thesis
      by (simp add: FirstValue JObject Decode_def decodeStruct_def case_prod_beta zeroQuery_def)
  qed (simp_all add: FirstValue Decode_def decodeStruct_def zeroQuery_def)
qed

text \<open>
  C5, amended. The error of \<open>Decode\<close> is never printed. When the body holds no complete
  JSON value, or a JSON value of any shape without a non-empty array for the field
  \<open>Payload\<close>, the payload stays empty and the run ends like one with a well-formed empty
  payload: the UNKNOWN line is printed last, nothing goes to standard error, and the exit
  code is 3. When the first value is not an object, the structure stays zero-valued.
\<close>

theorem body_without_payload_is_unknown:
  fixes w :: "('f::zero) world"
  assumes "responseRead w = Some res" and "flagArgs w \<noteq> []"
    and "\<not> carriesPayload (Body res)"
  shows "(\<exists>q. queryDecoded w = Some q \<and> Payload q = [])
    \<and> exitCode (main FormatFloat w) = 3
    \<and> last (stdout (main FormatFloat w)) = Println ''UNKNOWN: The resultpayload size is 0''
    \<and> (flagVerbose w
        \<or> stdout (main FormatFloat w) = [Println ''UNKNOWN: The resultpayload size is 0''])
    \<and> stderr (main FormatFloat w) = []
    \<and> ((\<forall>ms. Body res \<noteq> FirstValue (JObject ms)) \<longrightarrow> queryDecoded w = Some zeroQuery)"
proof -
  define q where "q = snd (Decode (Body res) zeroQuery)"
  have d: "queryDecoded w = Some q"
    using assms(1) by (simp add: queryDecoded_def q_def)
  have p: "Payload q = []"
    unfolding q_def using assms(3) by (rule Decode_without_payload)
  have z: "q = zeroQuery" if "\<forall>ms. Body res \<noteq> FirstValue (JObject ms)"
    unfolding q_def using that by (simp add: Decode_not_object)
  from main_after_response[OF assms(1), of FormatFloat] assms(2) obtain st where
    v: "flagVerbose w \<or> out st = []" and e: "err st = []" and
    m: "main FormatFloat w = respond FormatFloat (flagVerbose w) st q"
    by (auto simp: q_def)
  have "exitCode (main FormatFloat w) = 3
    \<and> last (stdout (main FormatFloat w)) = Println ''UNKNOWN: The resultpayload size is 0''
    \<and> (flagVerbose w
        \<or> stdout (main FormatFloat w) = [Println ''UNKNOWN: The resultpayload size is 0''])
    \<and> stderr (main FormatFloat w) = []"
    using v e p by (auto simp: m respond_def os_Exit_def println_def printf_def)
  with d p z show ?thesis
    by blast
qed

theorem body_without_payload_is_unknown_witness:
  "responseRead (exampleWorld [''check_cpu''] False NoValue) = Some \<lparr>Body = NoValue\<rparr>
   \<and> flagArgs (exampleWorld [''check_cpu''] False NoValue) \<noteq> []
   \<and> \<not> carriesPayload (Body \<lparr>Body = (NoValue :: int body)\<rparr>)
   \<and> fst (Decode (NoValue :: int body) zeroQuery) = Some NoJSONValue
   \<and> exitCode (main formatWhole (exampleWorld [''check_cpu''] False NoValue)) = 3
   \<and> stdout (main formatWhole (exampleWorld [''check_cpu''] False NoValue)) =
       [Println ''UNKNOWN: The resultpayload size is 0'']
   \<and> \<not> carriesPayload (Body \<lparr>Body = wrongShapeBody\<rparr>)
   \<and> fst (Decode wrongShapeBody zeroQuery) = Some UnmarshalTypeError
   \<and> exitCode (main formatWhole (exampleWorld [''check_cpu''] False wrongShapeBody)) = 3"
proof -
  have a: "flagArgs (exampleWorld [''check_cpu''] False b) \<noteq> []"
    and v: "\<not> flagVerbose (exampleWorld [''check_cpu''] False b)" for b
    by (simp_all add: exampleWorld_def)
  have n: "\<not> carriesPayload (Body \<lparr>Body = (NoValue :: int body)\<rparr>)"
    by (simp add: carriesPayload_def)
  have s: "\<not> carriesPayload (Body \<lparr>Body = wrongShapeBody\<rparr>)"
    by (simp add: carriesPayload_def wrongShapeBody_def nonEmptyArray_def)
  have t: "fst (Decode wrongShapeBody zeroQuery) = Some UnmarshalTypeError"
    by (simp add: wrongShapeBody_def Decode_def decodeStruct_def queryField_def
        decodeSlice_def zeroQuery_def)
  from body_without_payload_is_unknown[OF exampleWorld_response a n,
      where FormatFloat = formatWhole]
    body_without_payload_is_unknown[OF exampleWorld_response a s,
      where FormatFloat = formatWhole]
    a v n s t
  show ?thesis
    by (simp add: exampleWorld_response Decode_def)
qed

subsection \<open>The response body is not closed\<close>

lemma respond_pending:
  "pending (respond FormatFloat v st q) = deferred st"
  "bodyClosed (respond FormatFloat v st q) = closed st"
  by (cases "Payload q";
      simp add: respond_def os_Exit_def println_def printf_def case_prod_beta)+

lemma exit_leaves_close_pending:
  fixes w :: "('f::zero) world"
  assumes "responseRead w = Some res"
  shows "pending (main FormatFloat w) = [BodyClose] \<and> \<not> bodyClosed (main FormatFloat w)"
proof -
  from main_after_response[OF assms, of FormatFloat] obtain st where
    "deferred st = [BodyClose]" "\<not> closed st"
    "main FormatFloat w =
      (if length (flagArgs w) = 0
       then os_Exit (println st (''OK: NSClient API reachable on '' @ flagURL w)) 0
       else respond FormatFloat (flagVerbose w) st (snd (Decode (Body res) zeroQuery)))"
    by blast
  then show ?thesis
    by (simp add: respond_pending os_Exit_def println_def)
qed

text \<open>
  C9 does not hold of the code. Line 163 defers \<open>res.Body.Close()\<close>, but every path after
  it ends in \<open>os.Exit\<close>, which runs no deferred call: at the exit of the probe run below
  the call is still pending and the body has not been closed (running the pending call
  would have closed it).
\<close>

theorem body_close_never_runs:
  "exitCode (main formatWhole (exampleWorld [] False emptyPayloadBody)) = 0
   \<and> pending (main formatWhole (exampleWorld [] False emptyPayloadBody)) = [BodyClose]
   \<and> \<not> bodyClosed (main formatWhole (exampleWorld [] False emptyPayloadBody))
   \<and> runDeferred (pending (main formatWhole (exampleWorld [] False emptyPayloadBody)))
        (bodyClosed (main formatWhole (exampleWorld [] False emptyPayloadBody)))"
proof -
  have "exitCode (main formatWhole (exampleWorld [] False emptyPayloadBody)) = 0"
    by (simp add: main_def exampleWorld_def afterRequest_def os_Exit_def Let_def)
  with exit_leaves_close_pending[OF exampleWorld_response,
      of formatWhole "[]" False emptyPayloadBody]
  show ?thesis by simp
qed

subsection \<open>Verbose mode\<close>

text \<open>
  C8, as stated, fails: when the dump of the response fails, the program prints the error
  and decodes what the failed dump left of the body. The quiet run below reports the
  payload (exit code 0), the verbose run of the same exchange ends unknown (exit code 3).
\<close>

theorem verbose_changes_outcome_counterexample:
  "truncatedWorld True = (truncatedWorld False)\<lparr>flagVerbose := True\<rparr>
   \<and> exitCode (main formatWhole (truncatedWorld False)) = 0
   \<and> exitCode (main formatWhole (truncatedWorld True)) = 3"
proof -
  have q: "exitCode (main formatWhole (truncatedWorld False)) = 0"
    by (simp add: main_def truncatedWorld_def exampleWorld_def afterRequest_def
          interpretResponse_def Let_def)
       (simp add: resultBody_def Decode_def decodeStruct_def queryField_def fieldIs_def
          toUpper_def decodeSlice_def payloadField_def decodeString_def zeroQuery_def
          zeroPayloadEntry_def enumerate_eq_zip respond_def report_def os_Exit_def
          lookupReturncode_def ReturncodeMap_def)
  have v: "exitCode (main formatWhole (truncatedWorld True)) = 3"
    by (simp add: main_def truncatedWorld_def exampleWorld_def afterRequest_def
          interpretResponse_def dumpResponse_def Let_def)
       (simp add: Decode_def zeroQuery_def respond_def os_Exit_def)
  show ?thesis
    using q v by (simp add: truncatedWorld_def exampleWorld_def)
qed

text \<open>
  C8, amended. Whenever the dump of the response succeeds, the verbose run and the quiet
  run of the same exchange have the same exit code, the same standard error and send the
  same request, and the verbose run prints what the quiet run prints, after its
  diagnostic output.
\<close>

theorem verbose_only_adds_output:
  fixes w :: "('f::zero) world"
  assumes "DumpResponse w = DumpOk d"
  shows "exitCode (main FormatFloat (w\<lparr>flagVerbose := True\<rparr>)) =
           exitCode (main FormatFloat (w\<lparr>flagVerbose := False\<rparr>))
    \<and> (\<exists>diagnostics. stdout (main FormatFloat (w\<lparr>flagVerbose := True\<rparr>)) =
           diagnostics @ stdout (main FormatFloat (w\<lparr>flagVerbose := False\<rparr>)))
    \<and> stderr (main FormatFloat (w\<lparr>flagVerbose := True\<rparr>)) =
           stderr (main FormatFloat (w\<lparr>flagVerbose := False\<rparr>))
    \<and> requests (main FormatFloat (w\<lparr>flagVerbose := True\<rparr>)) =
           requests (main FormatFloat (w\<lparr>flagVerbose := False\<rparr>))"
  using assms
  by (auto simp: main_def afterRequest_def interpretResponse_def Let_def missingArgument_def
      os_Exit_def println_def printf_def dumpResponse_def dumpRequest_def start_def
      respond_def case_prod_beta
      split: sum.splits option.splits list.splits)

theorem verbose_only_adds_output_witness:
  "DumpResponse (exampleWorld [''check_cpu''] False (resultBody ''WARNING'')) =
     DumpOk ''HTTP/1.1 200 OK''
   \<and> exitCode (main formatWhole
        ((exampleWorld [''check_cpu''] False (resultBody ''WARNING''))\<lparr>flagVerbose := True\<rparr>)) =
      exitCode (main formatWhole
        ((exampleWorld [''check_cpu''] False (resultBody ''WARNING''))\<lparr>flagVerbose := False\<rparr>))
   \<and> (\<exists>diagnostics. stdout (main formatWhole
        ((exampleWorld [''check_cpu''] False (resultBody ''WARNING''))\<lparr>flagVerbose := True\<rparr>)) =
      diagnostics @ stdout (main formatWhole
        ((exampleWorld [''check_cpu''] False (resultBody ''WARNING''))\<lparr>flagVerbose := False\<rparr>)))"
proof -
  have d: "DumpResponse (exampleWorld [''check_cpu''] False (resultBody ''WARNING'')) =
      DumpOk ''HTTP/1.1 200 OK''"
    by (simp add: exampleWorld_def)
  from verbose_only_adds_output[OF d, where FormatFloat = formatWhole] d
  show ?thesis by blast
qed

subsection \<open>The member name of the minimum\<close>

lemma intValueField_keeps_Minimum:
  "\<not> fieldIs ''mininum'' name \<Longrightarrow> Minimum (snd (intValueField name x v)) = Minimum v"
  by (simp add: intValueField_def)

lemma fold_keeps_Minimum:
  "\<not> list_ex (\<lambda>m. fieldIs ''mininum'' (fst m)) ms \<Longrightarrow>
   Minimum (snd (foldl
      (\<lambda>(e, s) (k, x). (case intValueField k x s of (e', s') \<Rightarrow> (e \<or> e', s'))) acc ms)) =
   Minimum (snd acc)"
proof (induction ms arbitrary: acc)
  case Nil
  then show ?case by simp
next
  case (Cons m ms)
  obtain k x where m: "m = (k, x)" by (cases m)
  obtain e s where acc: "acc = (e, s)" by (cases acc)
  from Cons.prems m have k: "\<not> fieldIs ''mininum'' k" and
    rest: "\<not> list_ex (\<lambda>m. fieldIs ''mininum'' (fst m)) ms"
    by simp_all
  show ?case
    using Cons.IH[OF rest] intValueField_keeps_Minimum[OF k, of x s]
    by (simp add: m acc case_prod_beta)
qed

lemma not_minimum: "\<not> fieldIs ''mininum'' ''minimum''"
  by (simp add: fieldIs_def toUpper_def)

text \<open>
  C10. The field \<open>Minimum\<close> carries the tag \<open>mininum\<close>. When no member of the
  \<open>int_value\<close> object has that name (letter case aside, as the decoder matches names),
  the minimum stays absent and the tag gets no minimum field. The standard spelling
  \<open>minimum\<close> is not that name: a minimum sent under it is dropped, one sent under
  \<open>mininum\<close> is stored.
\<close>

theorem minimum_read_from_mininum:
  fixes ms :: "(string \<times> ('f::zero) json) list"
  shows "(\<not> list_ex (\<lambda>m. fieldIs ''mininum'' (fst m)) ms \<longrightarrow>
      Minimum (snd (decodeStruct intValueField (JObject ms) zeroIntValue)) = None
      \<and> optField FormatFloat
          (Minimum (snd (decodeStruct intValueField (JObject ms) zeroIntValue))) = [])
    \<and> \<not> fieldIs ''mininum'' ''minimum''
    \<and> Minimum (snd (decodeStruct intValueField (JObject [(''mininum'', JNumber x)])
          zeroIntValue)) = Some x
    \<and> intValueField ''minimum'' j v = (False, v)"
proof -
  have a: "Minimum (snd (decodeStruct intValueField (JObject ms) zeroIntValue)) = None"
    if "\<not> list_ex (\<lambda>m. fieldIs ''mininum'' (fst m)) ms"
    using fold_keeps_Minimum[OF that, of "(False, zeroIntValue)"]
    by (simp add: decodeStruct_def zeroIntValue_def)
  have b: "Minimum (snd (decodeStruct intValueField (JObject [(''mininum'', JNumber x)])
          zeroIntValue)) = Some x"
    by (simp add: decodeStruct_def intValueField_def fieldIs_def toUpper_def decodeFloatPtr_def)
  have c: "intValueField ''minimum'' j v = (False, v)"
    by (simp add: intValueField_def fieldIs_def toUpper_def)
  show ?thesis
    using a b c not_minimum by (simp add: optField_def)
qed

theorem minimum_read_from_mininum_witness:
  "\<not> list_ex (\<lambda>m. fieldIs ''mininum'' (fst m))
       [(''value'', JNumber (95::int)), (''minimum'', JNumber 0), (''maximum'', JNumber 100)]
   \<and> Minimum (snd (decodeStruct intValueField
        (JObject [(''value'', JNumber (95::int)), (''minimum'', JNumber 0),
                  (''maximum'', JNumber 100)]) zeroIntValue)) = None
   \<and> writePerf formatWhole [] (snd (decodeStruct perfField (minimumMetric ''minimum'') zeroPerf))
       = '' '' @ [CHR 0x27] @ ''used'' @ [CHR 0x27] @ ''=95;100''
   \<and> writePerf formatWhole [] (snd (decodeStruct perfField (minimumMetric ''mininum'') zeroPerf))
       = '' '' @ [CHR 0x27] @ ''used'' @ [CHR 0x27] @ ''=95;0;100''"
proof -
  have n: "\<not> list_ex (\<lambda>m. fieldIs ''mininum'' (fst m))
       [(''value'', JNumber (95::int)), (''minimum'', JNumber 0), (''maximum'', JNumber 100)]"
    by (simp add: fieldIs_def toUpper_def)
  have t: "writePerf formatWhole []
        (snd (decodeStruct perfField (minimumMetric ''minimum'') zeroPerf))
       = '' '' @ [CHR 0x27] @ ''used'' @ [CHR 0x27] @ ''=95;100''"
    by (simp add: minimumMetric_def decodeStruct_def perfField_def intValueField_def
        fieldIs_def toUpper_def decodeFloatPtr_def decodeString_def zeroPerf_def
        zeroIntValue_def writePerf_def optField_def formatWhole_def digits.simps)
  have u: "writePerf formatWhole []
        (snd (decodeStruct perfField (minimumMetric ''mininum'') zeroPerf))
       = '' '' @ [CHR 0x27] @ ''used'' @ [CHR 0x27] @ ''=95;0;100''"
    by (simp add: minimumMetric_def decodeStruct_def perfField_def intValueField_def
        fieldIs_def toUpper_def decodeFloatPtr_def decodeString_def zeroPerf_def
        zeroIntValue_def writePerf_def optField_def formatWhole_def digits.simps)
  from minimum_read_from_mininum[where
      ms = "[(''value'', JNumber (95::int)), (''minimum'', JNumber 0), (''maximum'', JNumber 100)]"
      and FormatFloat = formatWhole] n t u
  show ?thesis by blast
qed

subsection \<open>Performance data\<close>

lemma spaced_simps:
  "spaced [] = []"
  "spaced (t # ts) = '' '' @ t @ spaced ts"
  "spaced (ts @ us) = spaced ts @ spaced us"
  by (simp_all add: spaced_def)

lemma spaced_empty: "(spaced ts = []) = (ts = [])"
  by (cases ts) (simp_all add: spaced_simps)

lemma optField_present:
  "optField F a @ optField F b @ optField F c @ optField F d =
   concat (map (\<lambda>y. '';'' @ F y) (present [a, b, c, d]))"
  by (cases a; cases b; cases c; cases d)
     (simp_all add: optField_def present_def List.map_filter_def)

lemma writePerf_specTag:
  "writePerf F buf p = buf @ (case specTag F p of None \<Rightarrow> [] | Some t \<Rightarrow> '' '' @ t)"
  by (cases "Value (IntValue p)") (simp_all add: writePerf_def specTag_def optField_present)

lemma foldl_writePerf:
  "foldl (writePerf F) buf ps = buf @ spaced (List.map_filter (specTag F) ps)"
proof (induction ps arbitrary: buf)
  case Nil
  then show ?case by (simp add: map_filter_simps spaced_simps)
next
  case (Cons p ps)
  have "foldl (writePerf F) buf (p # ps) = foldl (writePerf F) (writePerf F buf p) ps"
    by simp
  also have "\<dots> = writePerf F buf p @ spaced (List.map_filter (specTag F) ps)"
    by (rule Cons.IH)
  also have "\<dots> = buf @ spaced (List.map_filter (specTag F) (p # ps))"
    by (cases "specTag F p")
       (simp_all add: writePerf_specTag[of F buf p] map_filter_simps spaced_simps)
  finally show ?case .
qed

lemma specTags_Cons:
  "specTags F (l # ls) = List.map_filter (specTag F) (Perf l) @ specTags F ls"
  by (simp add: specTags_def List.map_filter_def)

lemma foldl_lineStep:
  "foldl (lineStep F) (m, buf) ls =
     (if ls = [] then m else TrimSpace (Message (last ls)), buf @ spaced (specTags F ls))"
proof (induction ls arbitrary: m buf)
  case Nil
  then show ?case by (simp add: specTags_def map_filter_simps spaced_simps)
next
  case (Cons l ls)
  have "foldl (lineStep F) (m, buf) (l # ls) =
      foldl (lineStep F) (TrimSpace (Message l), foldl (writePerf F) buf (Perf l)) ls"
    by (simp add: lineStep_def[of F "(m, buf)" l])
  also have "\<dots> = (if ls = [] then TrimSpace (Message l) else TrimSpace (Message (last ls)),
      foldl (writePerf F) buf (Perf l) @ spaced (specTags F ls))"
    by (rule Cons.IH)
  also have "\<dots> = (if l # ls = [] then m else TrimSpace (Message (last (l # ls))),
      buf @ spaced (specTags F (l # ls)))"
    by (simp add: foldl_writePerf specTags_Cons spaced_simps)
  finally show ?case .
qed

lemma report_specLine: "report F entry = (specLine F entry, lookupReturncode (Result entry))"
  by (simp add: report_def foldl_lineStep spaced_empty specLine_def)

subsection \<open>The line printed for a payload\<close>

lemma respond_entry:
  "respond F v st (q\<lparr>Payload := entry # rest\<rparr>) =
     os_Exit (println st (specLine F entry)) (lookupReturncode (Result entry))"
  by (simp add: respond_def report_specLine)

text \<open>
  C3. With a non-empty payload only its first entry is used. The line printed is the
  trimmed message of the last line of that entry (nothing for an entry without lines),
  followed, only if some metric of the entry has a value, by \<open>|\<close> and the trimmed tags
  of all its lines in line order. Further payload entries change nothing.
\<close>

theorem first_entry_last_line:
  fixes w :: "('f::zero) world"
  shows "(queryDecoded w = Some q \<and> flagArgs w \<noteq> [] \<and> Payload q = entry # rest \<longrightarrow>
      last (stdout (main F w)) = Println (specLine F entry)
      \<and> (flagVerbose w \<or> stdout (main F w) = [Println (specLine F entry)]))
    \<and> respond F v st (q'\<lparr>Payload := entry # rest\<rparr>) = respond F v st (q'\<lparr>Payload := [entry]\<rparr>)
    \<and> specLine F entry =
        (if Lines entry = [] then [] else TrimSpace (Message (last (Lines entry))))
          @ (if specTags F (Lines entry) = [] then []
             else ''|'' @ TrimSpace (spaced (specTags F (Lines entry))))
    \<and> specTags F (ls @ ls') = specTags F ls @ specTags F ls'"
proof -
  have a: "last (stdout (main F w)) = Println (specLine F entry)
      \<and> (flagVerbose w \<or> stdout (main F w) = [Println (specLine F entry)])"
    if h: "queryDecoded w = Some q" "flagArgs w \<noteq> []" "Payload q = entry # rest"
  proof -
    from main_decoded[OF h(1,2), of F] obtain st where
      v: "flagVerbose w \<or> out st = []" and
      m: "main F w = respond F (flagVerbose w) st q"
      by auto
    have "q = q\<lparr>Payload := entry # rest\<rparr>" using h(3) by simp
    then have "main F w = os_Exit (println st (specLine F entry)) (lookupReturncode (Result entry))"
      using m respond_entry[where F = F and v = "flagVerbose w" and st = st and q = q and entry = entry and rest = rest] by simp
    then show ?thesis
      using v by (auto simp: os_Exit_def println_def)
  qed
  have b: "respond F v st (q'\<lparr>Payload := entry # rest\<rparr>) = respond F v st (q'\<lparr>Payload := [entry]\<rparr>)"
    by (simp add: respond_entry)
  have c: "specTags F (ls @ ls') = specTags F ls @ specTags F ls'"
    by (simp add: specTags_def List.map_filter_def)
  show ?thesis
    using a b c by (simp add: specLine_def)
qed


lemma decoded_twoLineBody:
  "queryDecoded (exampleWorld as v twoLineBody) = Some twoLineQuery"
  by (simp add: queryDecoded_def exampleWorld_response)
     (simp add: twoLineBody_def twoLineQuery_def driveEntry_def otherEntry_def loadMetric_def
        usedMetric_def Decode_def decodeStruct_def decodeSlice_def queryField_def
        payloadField_def lineField_def perfField_def intValueField_def headerField_def
        decodeString_def decodeStringPtr_def decodeFloatPtr_def fieldIs_def toUpper_def
        zeroQuery_def zeroPayloadEntry_def zeroLine_def zeroPerf_def zeroIntValue_def
        enumerate_eq_zip)

lemma TrimSpace_examples:
  "TrimSpace '' disk low '' = ''disk low''"
  "TrimSpace ('' '' @ [CHR 0x27] @ ''load'' @ [CHR 0x27] @ ''=3 '' @ [CHR 0x27] @ ''used''
      @ [CHR 0x27] @ ''=95%;80;90'') =
    [CHR 0x27] @ ''load'' @ [CHR 0x27] @ ''=3 '' @ [CHR 0x27] @ ''used'' @ [CHR 0x27]
      @ ''=95%;80;90''"
  by (simp_all add: TrimSpace_def TrimLeft.simps TrimRight.simps leadingSpace_def
      trailingSpace_def asciiSpace_def unicodeSpaces_def)

lemma specLine_driveEntry:
  "specLine formatWhole driveEntry =
     ''disk low|'' @ [CHR 0x27] @ ''load'' @ [CHR 0x27] @ ''=3 '' @ [CHR 0x27] @ ''used''
       @ [CHR 0x27] @ ''=95%;80;90''"
proof -
  have t: "specTags formatWhole (Lines driveEntry) =
      [[CHR 0x27] @ ''load'' @ [CHR 0x27] @ ''=3'',
       [CHR 0x27] @ ''used'' @ [CHR 0x27] @ ''=95%;80;90'']"
    by (simp add: driveEntry_def specTags_def specTag_def present_def map_filter_simps
        formatWhole_def digits.simps)
  have l: "Lines driveEntry \<noteq> []" "Message (last (Lines driveEntry)) = '' disk low ''"
    by (simp_all add: driveEntry_def)
  show ?thesis
    using TrimSpace_examples by (simp add: specLine_def t l spaced_def)
qed

theorem first_entry_last_line_witness:
  "queryDecoded (exampleWorld [''check_drive''] False twoLineBody) = Some twoLineQuery
   \<and> flagArgs (exampleWorld [''check_drive''] False twoLineBody) \<noteq> []
   \<and> Payload twoLineQuery = driveEntry # [otherEntry]
   \<and> stdout (main formatWhole (exampleWorld [''check_drive''] False twoLineBody)) =
       [Println (''disk low|'' @ [CHR 0x27] @ ''load'' @ [CHR 0x27] @ ''=3 '' @ [CHR 0x27]
          @ ''used'' @ [CHR 0x27] @ ''=95%;80;90'')]"
proof -
  have a: "flagArgs (exampleWorld [''check_drive''] False twoLineBody) \<noteq> []"
    and v: "\<not> flagVerbose (exampleWorld [''check_drive''] False twoLineBody)"
    by (simp_all add: exampleWorld_def)
  have p: "Payload twoLineQuery = driveEntry # [otherEntry]"
    by (simp add: twoLineQuery_def)
  from first_entry_last_line[where w = "exampleWorld [''check_drive''] False twoLineBody"
      and q = twoLineQuery and entry = driveEntry and rest = "[otherEntry]"
      and F = formatWhole]
    decoded_twoLineBody a v p
  have "stdout (main formatWhole (exampleWorld [''check_drive''] False twoLineBody)) =
      [Println (specLine formatWhole driveEntry)]"
    by blast
  then show ?thesis
    using a p by (simp add: decoded_twoLineBody specLine_driveEntry)
qed

subsection \<open>The request URL\<close>























lemma requests_respond: "requests (respond F v st q) = sent st"
  by (cases "Payload q";
      simp add: respond_def os_Exit_def println_def printf_def case_prod_beta)

text \<open>The one request of a run goes to the URL that \<open>buildURL\<close> gives.\<close>

lemma main_sends_built_url:
  fixes w :: "('f::zero) world"
  assumes "reachesCall w" and "url_Parse w = Inr urlStruct"
  shows "requests (main F w) = [(buildURL urlStruct (flagArgs w), flagPassword w)]"
  using assms
  by (auto simp: main_def reachesCall_def afterRequest_def interpretResponse_def Let_def
      os_Exit_def println_def start_def case_prod_beta requests_respond
      split: sum.splits)




subsection \<open>The text of a number\<close>




lemma isDigit_simps [simp]:
  "isDigit CHR ''0''" "\<not> isDigit CHR ''.''" "\<not> isDigit CHR ''-''"
  by (simp_all add: isDigit_def)












lemma zeros_text:
  "filter isDigit (replicate k CHR ''0'') = replicate k CHR ''0''"
  "map charDigit (replicate k CHR ''0'') = replicate k 0"
  by (simp_all add: charDigit_def)







subsection \<open>Trimming the tags\<close>








subsection \<open>The tags in the printed line\<close>
























subsection \<open>The performance data printed\<close>












end
